theory Spec2Isabelle
  imports Complex_Main
begin

section \<open>Python values used by the training code\<close>

text \<open>
  The exceptions the modelled code can raise. Calls into the file system
  (\<^verbatim>\<open>torch.save\<close>, \<^verbatim>\<open>os.remove\<close>) and into the model, optimizer and
  metrics writer are external collaborators: they are recorded in the trace of
  events and taken to succeed.
\<close>

datatype error =
    ZeroDivisionError
  | UnboundLocalError
  | ValueError
  | AssertionError
  | TypeError
  | IndexError
  | AttributeError
  | RuntimeError

text \<open>
  A Python float. A finite float is modelled by the real number it denotes
  (rounding of \<open>+\<close> and \<open>/\<close> is not modelled, and negative zero is not
  distinguished from zero); the two infinities and NaN are kept, since
  \<^verbatim>\<open>fit\<close> initialises its slots with \<^verbatim>\<open>np.inf\<close> and comparisons with NaN
  are false.
\<close>

datatype pyfloat = Fin real | PInf | NInf | NaN

fun fl_lt :: "pyfloat \<Rightarrow> pyfloat \<Rightarrow> bool" where
  "fl_lt (Fin x) (Fin y) = (x < y)"
| "fl_lt (Fin x) PInf = True"
| "fl_lt NInf (Fin y) = True"
| "fl_lt NInf PInf = True"
| "fl_lt _ _ = False"

fun fl_le :: "pyfloat \<Rightarrow> pyfloat \<Rightarrow> bool" where
  "fl_le (Fin x) (Fin y) = (x \<le> y)"
| "fl_le (Fin x) PInf = True"
| "fl_le NInf (Fin y) = True"
| "fl_le NInf PInf = True"
| "fl_le PInf PInf = True"
| "fl_le NInf NInf = True"
| "fl_le _ _ = False"

fun fl_add :: "pyfloat \<Rightarrow> pyfloat \<Rightarrow> pyfloat" where
  "fl_add (Fin x) (Fin y) = Fin (x + y)"
| "fl_add NaN _ = NaN"
| "fl_add _ NaN = NaN"
| "fl_add PInf NInf = NaN"
| "fl_add NInf PInf = NaN"
| "fl_add PInf _ = PInf"
| "fl_add _ PInf = PInf"
| "fl_add NInf _ = NInf"
| "fl_add _ NInf = NInf"

text \<open>\<^verbatim>\<open>x / n\<close> for a float \<open>x\<close> and an integer \<open>n\<close>; Python raises on \<open>n = 0\<close>.\<close>

fun fl_div_int :: "pyfloat \<Rightarrow> int \<Rightarrow> error + pyfloat" where
  "fl_div_int x n =
     (if n = 0 then Inl ZeroDivisionError
      else Inr (case x of
                  Fin r \<Rightarrow> Fin (r / of_int n)
                | PInf \<Rightarrow> (if 0 < n then PInf else NInf)
                | NInf \<Rightarrow> (if 0 < n then NInf else PInf)
                | NaN \<Rightarrow> NaN))"

section \<open>Formatting of file names\<close>

definition digit_char :: "nat \<Rightarrow> char" where
  "digit_char d = ''0123456789'' ! d"

function show_nat :: "nat \<Rightarrow> string" where
  "show_nat n = (if n < 10 then [digit_char n] else show_nat (n div 10) @ [digit_char (n mod 10)])"
  by pat_completeness auto
termination
  by (relation "measure id") auto

declare show_nat.simps [simp del]

definition show_int :: "int \<Rightarrow> string" where
  "show_int i = (if i < 0 then ''-'' @ show_nat (nat (- i)) else show_nat (nat i))"

text \<open>Rounding to the nearest integer, ties to the even one, as Python's float formatting does.\<close>

definition round_half_even :: "real \<Rightarrow> int" where
  "round_half_even r =
     (let f = \<lfloor>r\<rfloor>; t = r - of_int f
      in if t < 1 / 2 then f
         else if 1 / 2 < t then f + 1
         else if even f then f else f + 1)"

definition pad_zeros :: "nat \<Rightarrow> string \<Rightarrow> string" where
  "pad_zeros w s = replicate (w - length s) (CHR ''0'') @ s"

text \<open>The format specification \<^verbatim>\<open>:.<d>f\<close> applied to a float.\<close>

fun format_f :: "nat \<Rightarrow> pyfloat \<Rightarrow> string" where
  "format_f d NaN = ''nan''"
| "format_f d PInf = ''inf''"
| "format_f d NInf = ''-inf''"
| "format_f d (Fin x) =
     (let q = nat (round_half_even (\<bar>x\<bar> * 10 ^ d))
      in (if x < 0 then ''-'' else '''')
         @ show_nat (q div 10 ^ d)
         @ (if d = 0 then '''' else ''.'' @ pad_zeros d (show_nat (q mod 10 ^ d))))"

declare format_f.simps(4) [simp del]

section \<open>Events and external collaborators\<close>

datatype split = Train | Validation | Test

text \<open>
  What the code does to the outside world, in order: progress lines, scalar
  events sent to the metrics writer, the writer's flush and close, checkpoint
  files written by \<^verbatim>\<open>torch.save\<close> (path and the saved dictionary) and files
  removed by \<^verbatim>\<open>os.remove\<close>.
\<close>

datatype 'sd event =
    Progress split int nat pyfloat
  | AddScalar string pyfloat int
  | Flush
  | Close
  | TorchSave string "(string \<times> 'sd) list"
  | OsRemove string

text \<open>
  The model together with its optimizer and scheduler is a value of type \<open>'m\<close>;
  a batch \<open>(x, y)\<close> is a value of type \<open>'b\<close>. \<open>get_loss\<close> is
  \<^verbatim>\<open>model.get_loss(x, y, loss_fn).item()\<close>, \<open>opt_step\<close> is the sequence
  \<^verbatim>\<open>zero_grad / backward / optimizer.step / scheduler.step\<close>.
\<close>

record ('m, 'b, 'sd) ext =
  get_loss :: "'m \<Rightarrow> 'b \<Rightarrow> pyfloat"
  opt_step :: "'m \<Rightarrow> 'b \<Rightarrow> 'm"
  train_mode :: "'m \<Rightarrow> 'm"
  eval_mode :: "'m \<Rightarrow> 'm"
  model_state_dict :: "'m \<Rightarrow> 'sd"
  optimizer_state_dict :: "'m \<Rightarrow> 'sd"

section \<open>Checkpoint files\<close>

text \<open>\<^verbatim>\<open>save_model\<close>: returns the file name and the write it performs.\<close>

definition save_model ::
  "('m, 'b, 'sd) ext \<Rightarrow> 'm \<Rightarrow> int \<Rightarrow> pyfloat \<Rightarrow> string \<Rightarrow> string \<Rightarrow> string \<times> 'sd event list" where
  "save_model X m epoch loss_metric savedir tag =
     (let savename =
            (if tag = ''''
             then savedir @ ''/model_epoch='' @ show_int epoch @ ''_loss='' @ format_f 8 loss_metric @ ''.pt''
             else savedir @ ''/model_epoch='' @ show_int epoch @ ''_loss='' @ format_f 8 loss_metric
                    @ ''_'' @ tag @ ''.pt'')
      in (savename,
          [TorchSave savename
             [(''model_state_dict'', model_state_dict X m),
              (''optimizer_state_dict'', optimizer_state_dict X m)]]))"

definition delete_checkpoint :: "string \<Rightarrow> 'sd event list" where
  "delete_checkpoint checkpoint = [OsRemove checkpoint]"

section \<open>The checkpoint slots of fit\<close>

text \<open>
  \<^verbatim>\<open>np.argmax\<close> on a one-dimensional float array: the index of the first
  occurrence of the maximum, a NaN counting as maximal; it raises on an empty
  array.
\<close>

fun argmax_scan :: "pyfloat \<Rightarrow> nat \<Rightarrow> nat \<Rightarrow> pyfloat list \<Rightarrow> nat" where
  "argmax_scan mp mi i [] = mi"
| "argmax_scan mp mi i (x # xs) =
     (if mp = NaN then mi
      else if \<not> fl_le x mp then argmax_scan x i (Suc i) xs
      else argmax_scan mp mi (Suc i) xs)"

definition np_argmax :: "pyfloat list \<Rightarrow> error + nat" where
  "np_argmax xs = (case xs of [] \<Rightarrow> Inl ValueError | x # r \<Rightarrow> Inr (argmax_scan x 0 1 r))"

record slots =
  best_losses :: "pyfloat list"
  model_names :: "string option list"

definition init_slots :: "nat \<Rightarrow> slots" where
  "init_slots top_checkpoints_n =
     \<lparr> best_losses = replicate top_checkpoints_n PInf,
       model_names = replicate top_checkpoints_n None \<rparr>"

text \<open>
  Lines 203 to 216 of \<^verbatim>\<open>fit\<close>: one consideration of the current metric
  value. The result is the new slot state (or the exception) and the file
  operations performed.
\<close>

definition consider_metric ::
  "('m, 'b, 'sd) ext \<Rightarrow> 'm \<Rightarrow> int \<Rightarrow> pyfloat \<Rightarrow> string \<Rightarrow> slots \<Rightarrow> (error + slots) \<times> 'sd event list" where
  "consider_metric X m true_epoch curr_k_metric_value save_dir S =
     (case np_argmax (best_losses S) of
        Inl e \<Rightarrow> (Inl e, [])
      | Inr max_loss_idx \<Rightarrow>
          if length (model_names S) \<le> max_loss_idx then (Inl IndexError, [])
          else
            let max_loss_value = best_losses S ! max_loss_idx;
                max_loss_model = model_names S ! max_loss_idx
            in if fl_lt curr_k_metric_value max_loss_value
               then
                 let del = (case max_loss_model of
                              None \<Rightarrow> []
                            | Some p \<Rightarrow> delete_checkpoint p);
                     (model_name, sv) = save_model X m true_epoch curr_k_metric_value save_dir ''''
                 in (Inr \<lparr> best_losses = (best_losses S)[max_loss_idx := curr_k_metric_value],
                           model_names = (model_names S)[max_loss_idx := Some model_name] \<rparr>,
                     del @ sv)
               else (Inr S, []))"

section \<open>The epoch driver\<close>

text \<open>
  A computation returns its result, or the exception it raised, together with
  the events it emitted up to that point.
\<close>

type_synonym ('a, 'sd) comp = "(error + 'a) \<times> 'sd event list"

definition bind :: "('a, 'sd) comp \<Rightarrow> ('a \<Rightarrow> ('b, 'sd) comp) \<Rightarrow> ('b, 'sd) comp" where
  "bind c f =
     (case c of
        (Inl e, evs) \<Rightarrow> (Inl e, evs)
      | (Inr a, evs) \<Rightarrow> (case f a of (r, evs') \<Rightarrow> (r, evs @ evs')))"

text \<open>
  The body of the loop of \<^verbatim>\<open>train_loop\<close> over the batches that remain, with
  \<open>n = len(dataloader)\<close>, the index \<open>ibatch\<close> of the next batch, the model and
  the running total.
\<close>

fun train_batches ::
  "('m, 'b, 'sd) ext \<Rightarrow> int \<Rightarrow> nat \<Rightarrow> int \<Rightarrow> nat \<Rightarrow> 'b list \<Rightarrow> 'm \<Rightarrow> pyfloat
     \<Rightarrow> ('m \<times> pyfloat, 'sd) comp" where
  "train_batches X epoch n write_freq ibatch [] m tot_loss = (Inr (m, tot_loss), [])"
| "train_batches X epoch n write_freq ibatch (b # bs) m tot_loss =
     (let inner_step = epoch * int n + int ibatch;
          loss = get_loss X m b;
          m' = opt_step X m b
      in if write_freq = 0 then (Inl ZeroDivisionError, [])
         else
           bind (Inr (),
                 (if int ibatch mod write_freq = 0 then [Progress Train epoch ibatch loss] else [])
                 @ [AddScalar ''Training Step Loss'' loss inner_step])
             (\<lambda>_. train_batches X epoch n write_freq (Suc ibatch) bs m' (fl_add tot_loss loss)))"

definition train_loop ::
  "('m, 'b, 'sd) ext \<Rightarrow> 'm \<Rightarrow> 'b list \<Rightarrow> int \<Rightarrow> int \<Rightarrow> ('m \<times> pyfloat, 'sd) comp" where
  "train_loop X model dataloader epoch write_freq =
     bind (train_batches X epoch (length dataloader) write_freq 0 dataloader
             (train_mode X model) (Fin 0))
       (\<lambda>(m, tot_loss).
          case fl_div_int tot_loss (int (length dataloader)) of
            Inl e \<Rightarrow> (Inl e, [])
          | Inr mean \<Rightarrow> (Inr (m, mean), [AddScalar ''Avg. Epoch Train Loss'' mean epoch]))"

text \<open>
  The loop over the batches of \<^verbatim>\<open>validation_loop\<close> and of \<^verbatim>\<open>test_loop\<close>,
  which differ in the split they name only: no optimizer step is taken.
\<close>

fun eval_batches ::
  "('m, 'b, 'sd) ext \<Rightarrow> split \<Rightarrow> string \<Rightarrow> int \<Rightarrow> nat \<Rightarrow> int \<Rightarrow> nat \<Rightarrow> 'b list \<Rightarrow> 'm \<Rightarrow> pyfloat
     \<Rightarrow> (pyfloat, 'sd) comp" where
  "eval_batches X sp tag epoch n write_freq ibatch [] m tot_loss = (Inr tot_loss, [])"
| "eval_batches X sp tag epoch n write_freq ibatch (b # bs) m tot_loss =
     (let inner_step = epoch * int n + int ibatch;
          loss = get_loss X m b
      in if write_freq = 0 then (Inl ZeroDivisionError, [])
         else
           bind (Inr (),
                 (if int ibatch mod write_freq = 0 then [Progress sp epoch ibatch loss] else [])
                 @ [AddScalar tag loss inner_step])
             (\<lambda>_. eval_batches X sp tag epoch n write_freq (Suc ibatch) bs m (fl_add tot_loss loss)))"

definition validation_loop ::
  "('m, 'b, 'sd) ext \<Rightarrow> 'm \<Rightarrow> 'b list \<Rightarrow> int \<Rightarrow> int \<Rightarrow> ('m \<times> pyfloat, 'sd) comp" where
  "validation_loop X model dataloader epoch write_freq =
     (let m = eval_mode X model
      in bind (eval_batches X Validation ''Validation Step Loss'' epoch (length dataloader)
                 write_freq 0 dataloader m (Fin 0))
           (\<lambda>tot_loss.
              case fl_div_int tot_loss (int (length dataloader)) of
                Inl e \<Rightarrow> (Inl e, [])
              | Inr mean \<Rightarrow> (Inr (m, mean), [AddScalar ''Avg. Epoch Validation Loss'' mean epoch])))"

definition test_loop ::
  "('m, 'b, 'sd) ext \<Rightarrow> 'm \<Rightarrow> 'b list \<Rightarrow> int \<Rightarrow> int \<Rightarrow> ('m \<times> pyfloat, 'sd) comp" where
  "test_loop X model dataloader epoch write_freq =
     (let m = eval_mode X model
      in bind (eval_batches X Test ''Test Step Loss'' epoch (length dataloader)
                 write_freq 0 dataloader m (Fin 0))
           (\<lambda>tot_loss.
              case fl_div_int tot_loss (int (length dataloader)) of
                Inl e \<Rightarrow> (Inl e, [])
              | Inr mean \<Rightarrow> (Inr (m, mean), [AddScalar ''Avg. Epoch Test Loss'' mean epoch])))"

section \<open>The fit orchestrator\<close>

text \<open>
  The local variables of \<^verbatim>\<open>fit\<close> that the epoch loop updates. The variable
  \<^verbatim>\<open>true_epoch\<close> is assigned in the loop body only: it is unbound (\<open>None\<close>)
  until the first iteration.
\<close>

record 'm fit_state =
  fs_model :: 'm
  fs_slots :: slots
  train_losses :: "pyfloat list"
  val_losses :: "pyfloat list"
  test_losses :: "pyfloat list"
  true_epoch :: "int option"

text \<open>One iteration of the epoch loop (lines 176 to 216).\<close>

definition fit_epoch ::
  "('m, 'b, 'sd) ext \<Rightarrow> 'b list \<Rightarrow> 'b list \<Rightarrow> 'b list \<Rightarrow> string \<Rightarrow> string \<Rightarrow> int \<Rightarrow> int \<Rightarrow> int
     \<Rightarrow> int \<Rightarrow> 'm fit_state \<Rightarrow> ('m fit_state, 'sd) comp" where
  "fit_epoch X train_dataloader val_dataloader test_dataloader save_dir loss_metric write_freq
       test_freq prev_epochs epoch st =
     (let te = epoch + prev_epochs
      in bind (train_loop X (fs_model st) train_dataloader te write_freq) (\<lambda>(m1, train_loss).
         bind (validation_loop X m1 val_dataloader te write_freq) (\<lambda>(m2, val_loss).
         bind (if test_freq = 0 then (Inl ZeroDivisionError, [])
               else if te mod test_freq = 0
               then bind (test_loop X m2 test_dataloader te write_freq)
                      (\<lambda>(m3, test_loss). (Inr (m3, test_losses st @ [test_loss]), []))
               else (Inr (m2, test_losses st), [])) (\<lambda>(m3, tls).
         let curr_k_metric_value = (if loss_metric = ''train'' then train_loss else val_loss)
         in bind (consider_metric X m3 te curr_k_metric_value save_dir (fs_slots st)) (\<lambda>S.
              (Inr \<lparr> fs_model = m3, fs_slots = S,
                     train_losses = train_losses st @ [train_loss],
                     val_losses = val_losses st @ [val_loss],
                     test_losses = tls,
                     true_epoch = Some te \<rparr>, []))))))"

fun fit_loop ::
  "('m, 'b, 'sd) ext \<Rightarrow> 'b list \<Rightarrow> 'b list \<Rightarrow> 'b list \<Rightarrow> string \<Rightarrow> string \<Rightarrow> int \<Rightarrow> int \<Rightarrow> int
     \<Rightarrow> int list \<Rightarrow> 'm fit_state \<Rightarrow> ('m fit_state, 'sd) comp" where
  "fit_loop X trd vad ted save_dir loss_metric write_freq test_freq prev_epochs [] st = (Inr st, [])"
| "fit_loop X trd vad ted save_dir loss_metric write_freq test_freq prev_epochs (epoch # rest) st =
     bind (fit_epoch X trd vad ted save_dir loss_metric write_freq test_freq prev_epochs epoch st)
       (fit_loop X trd vad ted save_dir loss_metric write_freq test_freq prev_epochs rest)"

text \<open>
  \<^verbatim>\<open>fit\<close>. \<^verbatim>\<open>range(nepochs)\<close> is empty for \<open>nepochs \<le> 0\<close>; the number of
  slots is a natural number. The result is the four returned sequences.
\<close>

definition fit ::
  "('m, 'b, 'sd) ext \<Rightarrow> 'm \<Rightarrow> 'b list \<Rightarrow> 'b list \<Rightarrow> 'b list \<Rightarrow> int \<Rightarrow> string \<Rightarrow> nat \<Rightarrow> string
     \<Rightarrow> int \<Rightarrow> int \<Rightarrow> int
     \<Rightarrow> (pyfloat list \<times> pyfloat list \<times> pyfloat list \<times> string option list, 'sd) comp" where
  "fit X model train_dataloader val_dataloader test_dataloader nepochs save_dir top_checkpoints_n
       loss_metric write_freq test_freq prev_epochs =
     bind (fit_loop X train_dataloader val_dataloader test_dataloader save_dir loss_metric
             write_freq test_freq prev_epochs (map int [0 ..< nat nepochs])
             \<lparr> fs_model = model, fs_slots = init_slots top_checkpoints_n,
               train_losses = [], val_losses = [], test_losses = [], true_epoch = None \<rparr>)
       (\<lambda>st.
     bind (Inr (), [Flush, Close]) (\<lambda>_.
     bind (case true_epoch st of
             None \<Rightarrow> (Inl UnboundLocalError, [])
           | Some te \<Rightarrow> test_loop X (fs_model st) test_dataloader te write_freq)
       (\<lambda>(m, final_test_loss).
          let tls = test_losses st @ [final_test_loss]
          in if int top_checkpoints_n \<le> nepochs \<and>
                \<not> (None \<notin> set (model_names (fs_slots st)) \<and>
                   list_all (\<lambda>x. fl_lt x PInf) (best_losses (fs_slots st)))
             then (Inl AssertionError, [])
             else (Inr (train_losses st, val_losses st, tls, model_names (fs_slots st)), []))))"

section \<open>Predicates on the slot state\<close>

text \<open>
  \<open>j\<close> is the index of the first occurrence of the maximum of \<open>xs\<close>.
\<close>

definition is_first_max :: "pyfloat list \<Rightarrow> nat \<Rightarrow> bool" where
  "is_first_max xs j =
     (j < length xs \<and> (\<forall>i < length xs. fl_le (xs ! i) (xs ! j)) \<and> (\<forall>i < j. fl_lt (xs ! i) (xs ! j)))"

text \<open>
  The invariant of the slot state for \<open>K\<close> slots: both arrays have \<open>K\<close>
  entries, no stored metric is NaN, and a slot has no file name exactly when
  its metric is \<open>+\<infinity>\<close>.
\<close>

definition slots_inv :: "nat \<Rightarrow> slots \<Rightarrow> bool" where
  "slots_inv K S =
     (length (best_losses S) = K \<and> length (model_names S) = K \<and>
      NaN \<notin> set (best_losses S) \<and>
      (\<forall>i < K. (model_names S ! i = None) = (best_losses S ! i = PInf)))"

section \<open>The control events of a run\<close>

text \<open>
  The events that show when the test split was run and when the writer was
  flushed and closed: a test pass ends with the scalar event
  \<^verbatim>\<open>Avg. Epoch Test Loss\<close>, which carries the epoch it was run for.
\<close>

datatype marker = TestRun int | MFlush | MClose

fun marker_of :: "'sd event \<Rightarrow> marker list" where
  "marker_of (AddScalar tag v e) = (if tag = ''Avg. Epoch Test Loss'' then [TestRun e] else [])"
| "marker_of Flush = [MFlush]"
| "marker_of Close = [MClose]"
| "marker_of _ = []"

definition markers :: "'sd event list \<Rightarrow> marker list" where
  "markers evs = concat (map marker_of evs)"


text \<open>The file operations of a run, in order.\<close>

datatype file_op = Saved string | Removed string

fun file_op_of :: "'sd event \<Rightarrow> file_op list" where
  "file_op_of (TorchSave p d) = [Saved p]"
| "file_op_of (OsRemove p) = [Removed p]"
| "file_op_of _ = []"

definition file_ops :: "'sd event list \<Rightarrow> file_op list" where
  "file_ops evs = concat (map file_op_of evs)"

section \<open>Reading a decimal numeral back\<close>

text \<open>
  The value of a string of decimal digits, used to state what a formatted
  number encodes.
\<close>

definition digit_val :: "char \<Rightarrow> nat" where
  "digit_val c = of_char c - 48"

definition nat_of_digits :: "string \<Rightarrow> nat" where
  "nat_of_digits s = foldl (\<lambda>a c. 10 * a + digit_val c) 0 s"

section \<open>The loss module\<close>

text \<open>
  A two-dimensional tensor with its shape \<open>(shape0, shape1)\<close> and its rows;
  arithmetic on the entries is that of the reals. The weights have a third
  dimension of size two: each entry is the pair \<open>(w0, w1)\<close> of
  \<^verbatim>\<open>weights[b, c, 0]\<close> and \<^verbatim>\<open>weights[b, c, 1]\<close>.
\<close>

record tensor2 =
  shape0 :: nat
  shape1 :: nat
  rows :: "real list list"

record weights3 =
  w_shape0 :: nat
  w_shape1 :: nat
  w_rows :: "(real \<times> real) list list"

definition wf_tensor :: "tensor2 \<Rightarrow> bool" where
  "wf_tensor t = (length (rows t) = shape0 t \<and> list_all (\<lambda>r. length r = shape1 t) (rows t))"

definition wf_weights :: "weights3 \<Rightarrow> bool" where
  "wf_weights w = (length (w_rows w) = w_shape0 w \<and> list_all (\<lambda>r. length r = w_shape1 w) (w_rows w))"

text \<open>
  \<^verbatim>\<open>nn.BCELoss(reduction = 'none')\<close>: on every entry
  \<open>-(y \<sqdot> log p + (1 - y) \<sqdot> log (1 - p))\<close> with both logarithms clamped below
  at \<open>-100\<close>. It raises when the shapes differ and when a prediction is
  outside \<open>[0, 1]\<close>.
\<close>

definition log_clamped :: "real \<Rightarrow> real" where
  "log_clamped p = (if p \<le> 0 then - 100 else max (ln p) (- 100))"

definition bce_elem :: "real \<Rightarrow> real \<Rightarrow> real" where
  "bce_elem p y = - (y * log_clamped p + (1 - y) * log_clamped (1 - p))"

definition criterion :: "tensor2 \<Rightarrow> tensor2 \<Rightarrow> error + tensor2" where
  "criterion y_pred y_true =
     (if shape0 y_pred \<noteq> shape0 y_true \<or> shape1 y_pred \<noteq> shape1 y_true then Inl ValueError
      else if \<not> list_all (list_all (\<lambda>p. 0 \<le> p \<and> p \<le> 1)) (rows y_pred) then Inl RuntimeError
      else Inr \<lparr> shape0 = shape0 y_pred, shape1 = shape1 y_pred,
                 rows = map2 (map2 bce_elem) (rows y_pred) (rows y_true) \<rparr>)"

text \<open>\<^verbatim>\<open>torch.mean(t, dim = 0)\<close>: one mean per column; the mean of no entries is NaN.\<close>

definition mean_dim0 :: "tensor2 \<Rightarrow> pyfloat list" where
  "mean_dim0 t =
     map (\<lambda>c. if shape0 t = 0 then NaN
               else Fin (sum_list (map (\<lambda>r. r ! c) (rows t)) / real (shape0 t)))
       [0 ..< shape1 t]"

text \<open>\<^verbatim>\<open>torch.sum\<close> of a one-dimensional tensor.\<close>

definition fl_sum :: "pyfloat list \<Rightarrow> pyfloat" where
  "fl_sum xs = foldl fl_add (Fin 0) xs"

text \<open>
  \<^verbatim>\<open>subs_weighted_BCE\<close>. The parameter \<^verbatim>\<open>reduction\<close> is not used by the
  source. Weights are taken in the documented shape
  \<open>(batch_size, num_substructures, 2)\<close>; any other shape is an error here
  (broadcasting of a different shape is not modelled).
\<close>

definition subs_weighted_BCE :: "tensor2 \<Rightarrow> tensor2 \<Rightarrow> weights3 option \<Rightarrow> error + pyfloat" where
  "subs_weighted_BCE y_pred y_true weights =
     (case criterion y_pred y_true of
        Inl e \<Rightarrow> Inl e
      | Inr unweighted_loss \<Rightarrow>
          (case (case weights of
                   Some W \<Rightarrow>
                     if w_shape0 W \<noteq> shape0 y_true \<or> w_shape1 W \<noteq> shape1 y_true
                     then Inl RuntimeError
                     else
                       let w = map2 (map2 (\<lambda>y (w0, w1). y * w1 + (1 - y) * w0))
                                 (rows y_true) (w_rows W)
                       in Inr (unweighted_loss
                                 \<lparr> rows := map2 (map2 (*)) w (rows unweighted_loss) \<rparr>)
                 | None \<Rightarrow>
                     Inr (unweighted_loss \<lparr> rows := map (map ((*) 1)) (rows unweighted_loss) \<rparr>)) of
             Inl e \<Rightarrow> Inl e
           | Inr weighted_loss \<Rightarrow>
               let rowwise_meaned = mean_dim0 weighted_loss
               in if length rowwise_meaned \<noteq> 957 then Inl AssertionError
                  else Inr (fl_sum rowwise_meaned)))"

text \<open>The weights that are one everywhere, for a batch of \<open>b\<close> rows and \<open>c\<close> classes.\<close>

definition ones_weights :: "nat \<Rightarrow> nat \<Rightarrow> weights3" where
  "ones_weights b c = \<lparr> w_shape0 = b, w_shape1 = c, w_rows = replicate b (replicate c (1, 1)) \<rparr>"

text \<open>The predictions are probabilities.\<close>

definition valid_probs :: "tensor2 \<Rightarrow> bool" where
  "valid_probs t = list_all (list_all (\<lambda>p. 0 \<le> p \<and> p \<le> 1)) (rows t)"

text \<open>Tensors with the same entry everywhere, used to instantiate the theorems.\<close>

definition const_tensor :: "nat \<Rightarrow> nat \<Rightarrow> real \<Rightarrow> tensor2" where
  "const_tensor b c x = \<lparr> shape0 = b, shape1 = c, rows = replicate b (replicate c x) \<rparr>"

section \<open>A small run used to instantiate the theorems\<close>

text \<open>
  A model that counts the optimizer steps taken so far; its loss on any batch
  is the entry of \<open>[5, 3, 4, 1]\<close> at that count (\<open>0\<close> after four steps). Its
  state dictionaries are the count itself.
\<close>

definition demo_ext :: "(nat, unit, nat) ext" where
  "demo_ext =
     \<lparr> get_loss = (\<lambda>m b. Fin (of_int ([5, 3, 4, 1, 0] ! min m 4))),
       opt_step = (\<lambda>m b. Suc m),
       train_mode = (\<lambda>m. m),
       eval_mode = (\<lambda>m. m),
       model_state_dict = (\<lambda>m. m),
       optimizer_state_dict = (\<lambda>m. m) \<rparr>"

section \<open>The prediction serializer\<close>

text \<open>
  The contents of an HDF5 file: named groups of named datasets, in the order
  of creation. A file object is either what the builtin \<^verbatim>\<open>open\<close> returns, a
  text file that has no method \<^verbatim>\<open>create_group\<close>, or an \<^verbatim>\<open>h5py.File\<close>.
\<close>

datatype dataset =
    DStrings "string list"
  | DStringLists "string list list"
  | DIntMatrix "int list list"
  | DIntCube "int list list list"
  | DScalar int

type_synonym h5group = "(string \<times> dataset) list"

datatype fileobj = TextIO | H5File "(string \<times> h5group) list"

definition ebind :: "error + 'a \<Rightarrow> ('a \<Rightarrow> error + 'b) \<Rightarrow> error + 'b" where
  "ebind r f = (case r of Inl e \<Rightarrow> Inl e | Inr a \<Rightarrow> f a)"

definition create_group :: "fileobj \<Rightarrow> string \<Rightarrow> error + fileobj" where
  "create_group h5ptr name =
     (case h5ptr of
        TextIO \<Rightarrow> Inl AttributeError
      | H5File gs \<Rightarrow>
          if name \<in> set (map fst gs) then Inl ValueError
          else Inr (H5File (gs @ [(name, [])])))"

text \<open>\<^verbatim>\<open>group.create_dataset(key, data = d)\<close> for the group called \<open>g\<close>.\<close>

definition create_dataset :: "fileobj \<Rightarrow> string \<Rightarrow> string \<Rightarrow> dataset \<Rightarrow> error + fileobj" where
  "create_dataset h5ptr g key d =
     (case h5ptr of
        TextIO \<Rightarrow> Inl AttributeError
      | H5File gs \<Rightarrow>
          Inr (H5File (map (\<lambda>(n, ds). if n = g then (n, ds @ [(key, d)]) else (n, ds)) gs)))"

text \<open>
  \<^verbatim>\<open>np.array\<close> (and the conversion \<^verbatim>\<open>create_dataset\<close> makes) of a list of
  sequences: the sequences must have one length.
\<close>

definition rectangular :: "'a list list \<Rightarrow> bool" where
  "rectangular xs = (case xs of [] \<Rightarrow> True | x # r \<Rightarrow> list_all (\<lambda>y. length y = length x) r)"

definition np_array :: "'a list list \<Rightarrow> error + 'a list list" where
  "np_array xs = (if rectangular xs then Inr xs else Inl ValueError)"

definition save_str_set ::
  "fileobj \<Rightarrow> (string \<times> string list) list \<Rightarrow> string \<Rightarrow> error + fileobj" where
  "save_str_set h5ptr preds savename =
     (let targets = map fst preds;
          predictions = map snd preds
      in ebind (create_group h5ptr savename) (\<lambda>f1.
         ebind (create_dataset f1 savename ''targets'' (DStrings targets)) (\<lambda>f2.
         ebind (np_array predictions) (\<lambda>predictions.
         create_dataset f2 savename ''predictions'' (DStringLists predictions)))))"

text \<open>
  \<^verbatim>\<open>find_max_length\<close>: \<^verbatim>\<open>reduce\<close> without an initial value raises on an
  empty list, and so does \<^verbatim>\<open>max\<close>.
\<close>

definition find_max_length :: "'a list list list \<Rightarrow> error + nat" where
  "find_max_length preds =
     (case preds of
        [] \<Rightarrow> Inl TypeError
      | p # ps \<Rightarrow>
          let flattened_preds = foldl (@) p ps
          in (case map length flattened_preds of
                [] \<Rightarrow> Inl ValueError
              | l # ls \<Rightarrow> Inr (foldl max l ls)))"

text \<open>\<^verbatim>\<open>pad_single_prediction\<close>: \<^verbatim>\<open>np.pad\<close> raises on a negative pad width.\<close>

fun pad_single_prediction :: "'a list list \<Rightarrow> nat \<Rightarrow> 'a \<Rightarrow> error + 'a list list" where
  "pad_single_prediction [] max_len pad_token = Inr []"
| "pad_single_prediction (elem # rest) max_len pad_token =
     (if max_len < length elem then Inl ValueError
      else ebind (pad_single_prediction rest max_len pad_token) (\<lambda>fixed_seqs.
             Inr ((elem @ replicate (max_len - length elem) pad_token) # fixed_seqs)))"

text \<open>A list comprehension whose element expression can raise.\<close>

fun map_err :: "('a \<Rightarrow> error + 'b) \<Rightarrow> 'a list \<Rightarrow> error + 'b list" where
  "map_err f [] = Inr []"
| "map_err f (x # xs) = ebind (f x) (\<lambda>y. ebind (map_err f xs) (\<lambda>ys. Inr (y # ys)))"

definition save_array_set ::
  "fileobj \<Rightarrow> (int list \<times> int list list) list \<Rightarrow> string \<Rightarrow> error + fileobj" where
  "save_array_set h5ptr preds savename =
     ebind (np_array (map fst preds)) (\<lambda>targets.
     let predictions = map snd preds
     in ebind (find_max_length predictions) (\<lambda>max_len.
        let pad_token = 999999
        in ebind (map_err (\<lambda>elem. pad_single_prediction elem max_len pad_token) predictions)
             (\<lambda>predictions.
           ebind (np_array predictions) (\<lambda>predictions.
           ebind (create_group h5ptr savename) (\<lambda>f1.
           ebind (create_dataset f1 savename ''targets'' (DIntMatrix targets)) (\<lambda>f2.
           ebind (create_dataset f2 savename ''predictions'' (DIntCube predictions)) (\<lambda>f3.
           create_dataset f3 savename ''additional_pad_token'' (DScalar pad_token))))))))"

text \<open>
  The three optional prediction lists. All records of a call have one form,
  string or array: the function picks the save function from the first train
  record and uses it for every split.
\<close>

record 'r splits =
  train_predictions :: "'r list option"
  val_predictions :: "'r list option"
  test_predictions :: "'r list option"

datatype predictions =
    StrPredictions "(string \<times> string list) splits"
  | ArrPredictions "(int list \<times> int list list) splits"

text \<open>
  The body of \<^verbatim>\<open>save_inference_predictions\<close> for a save function: the first
  train record is read before anything else, and the file is opened with the
  builtin \<^verbatim>\<open>open\<close>. The result is the file object when the block is left.
\<close>

definition save_splits ::
  "(fileobj \<Rightarrow> 'r list \<Rightarrow> string \<Rightarrow> error + fileobj) \<Rightarrow> string \<Rightarrow> 'r splits \<Rightarrow> error + fileobj" where
  "save_splits save_fxn savedir s =
     (case train_predictions s of
        None \<Rightarrow> Inl TypeError
      | Some [] \<Rightarrow> Inl IndexError
      | Some (test_element # rest) \<Rightarrow>
          let f = TextIO
          in ebind (save_fxn f (test_element # rest) ''train'') (\<lambda>f1.
             ebind (case val_predictions s of
                      None \<Rightarrow> Inr f1
                    | Some v \<Rightarrow> save_fxn f1 v ''val'') (\<lambda>f2.
             (case test_predictions s of
                None \<Rightarrow> Inr f2
              | Some t \<Rightarrow> save_fxn f2 t ''test''))))"

fun save_inference_predictions :: "string \<Rightarrow> predictions \<Rightarrow> error + fileobj" where
  "save_inference_predictions savedir (StrPredictions s) = save_splits save_str_set savedir s"
| "save_inference_predictions savedir (ArrPredictions s) = save_splits save_array_set savedir s"


section \<open>Properties of the checkpoint slots\<close>

lemma fl_le_refl: "x \<noteq> NaN \<Longrightarrow> fl_le x x"
  by (cases x) simp_all

lemma fl_not_le_lt: "x \<noteq> NaN \<Longrightarrow> y \<noteq> NaN \<Longrightarrow> \<not> fl_le x y \<Longrightarrow> fl_lt y x"
  by (cases x; cases y) simp_all

lemma fl_lt_le: "fl_lt x y \<Longrightarrow> fl_le x y"
  by (cases x; cases y) simp_all

lemma fl_le_lt_trans: "fl_le x y \<Longrightarrow> fl_lt y z \<Longrightarrow> fl_lt x z"
  by (cases x; cases y; cases z) simp_all

lemma fl_lt_not_PInf: "fl_lt x y \<Longrightarrow> x \<noteq> PInf \<and> x \<noteq> NaN"
  by (cases x; cases y) simp_all

lemma argmax_scan_first_max:
  assumes "NaN \<notin> set (pre @ xs)" and "is_first_max pre mi" and "mp = pre ! mi" and "i = length pre"
  shows "is_first_max (pre @ xs) (argmax_scan mp mi i xs)"
  using assms
proof (induction xs arbitrary: pre mp mi i)
  case Nil
  then show ?case by simp
next
  case (Cons x xs)
  have mi: "mi < length pre" using Cons.prems(2) by (simp add: is_first_max_def)
  have mp_nn: "mp \<noteq> NaN"
    using Cons.prems(1,3) mi by (metis in_set_conv_nth Un_iff set_append)
  have x_nn: "x \<noteq> NaN" using Cons.prems(1) by auto
  have nn: "NaN \<notin> set ((pre @ [x]) @ xs)" using Cons.prems(1) by simp
  show ?case
  proof (cases "fl_le x mp")
    case True
    have "is_first_max (pre @ [x]) mi"
      using Cons.prems(2,3) True mi
      by (auto simp: is_first_max_def nth_append less_Suc_eq)
    from Cons.IH[OF nn this, of mp "Suc i"] Cons.prems(3,4) mi True mp_nn
    show ?thesis by (simp add: nth_append)
  next
    case False
    then have lt: "fl_lt mp x" using fl_not_le_lt x_nn mp_nn by blast
    have "is_first_max (pre @ [x]) (length pre)"
      unfolding is_first_max_def
    proof (intro conjI allI impI)
      show "length pre < length (pre @ [x])" by simp
    next
      fix k assume "k < length (pre @ [x])"
      then consider "k < length pre" | "k = length pre" by force
      then show "fl_le ((pre @ [x]) ! k) ((pre @ [x]) ! length pre)"
      proof cases
        case 1
        then have "fl_le (pre ! k) mp"
          using Cons.prems(2,3) by (simp add: is_first_max_def)
        then show ?thesis using 1 lt by (simp add: nth_append fl_le_lt_trans fl_lt_le)
      next
        case 2
        then show ?thesis using x_nn by (simp add: fl_le_refl)
      qed
    next
      fix k assume k: "k < length pre"
      then have "fl_le (pre ! k) mp"
        using Cons.prems(2,3) by (simp add: is_first_max_def)
      then show "fl_lt ((pre @ [x]) ! k) ((pre @ [x]) ! length pre)"
        using k lt by (simp add: nth_append fl_le_lt_trans)
    qed
    from Cons.IH[OF nn this, of x "Suc i"] Cons.prems(4) False mp_nn
    show ?thesis by (simp add: nth_append)
  qed
qed

lemma np_argmax_first_max:
  assumes "NaN \<notin> set xs" and "xs \<noteq> []"
  shows "\<exists>j. np_argmax xs = Inr j \<and> is_first_max xs j"
proof -
  obtain x r where xs: "xs = x # r" using assms(2) by (cases xs) auto
  have "x \<noteq> NaN" using assms(1) xs by auto
  then have "is_first_max [x] 0" by (simp add: is_first_max_def fl_le_refl)
  from argmax_scan_first_max[of "[x]" r 0 x 1] this assms(1) xs
  have "is_first_max xs (argmax_scan x 0 1 r)" by simp
  then show ?thesis by (simp add: np_argmax_def xs)
qed

lemma is_first_max_unique: "is_first_max xs j \<Longrightarrow> is_first_max xs k \<Longrightarrow> j = k"
proof (rule ccontr)
  assume a: "is_first_max xs j" "is_first_max xs k" "j \<noteq> k"
  then consider "j < k" | "k < j" by force
  then show False
  proof cases
    case 1
    then have "fl_lt (xs ! j) (xs ! k)" "fl_le (xs ! k) (xs ! j)"
      using a by (auto simp: is_first_max_def)
    then show False by (cases "xs ! j"; cases "xs ! k") simp_all
  next
    case 2
    then have "fl_lt (xs ! k) (xs ! j)" "fl_le (xs ! j) (xs ! k)"
      using a by (auto simp: is_first_max_def)
    then show False by (cases "xs ! j"; cases "xs ! k") simp_all
  qed
qed

lemma slots_inv_init: "slots_inv K (init_slots K)"
  by (simp add: slots_inv_def init_slots_def)

lemma slots_inv_update:
  assumes "slots_inv K S" and "j < K" and "fl_lt c (best_losses S ! j)"
  shows "slots_inv K \<lparr> best_losses = (best_losses S)[j := c], model_names = (model_names S)[j := Some n] \<rparr>"
proof -
  have c: "c \<noteq> PInf" "c \<noteq> NaN" using fl_lt_not_PInf[OF assms(3)] by simp_all
  have "NaN \<notin> set ((best_losses S)[j := c])"
    using assms(1) c(2) by (metis insertE set_update_subset_insert slots_inv_def subsetD)
  then show ?thesis
    using assms(1,2) c(1) by (auto simp: slots_inv_def nth_list_update)
qed

text \<open>
  C1. Given the slot invariant for \<open>K\<close> slots, one consideration raises
  ValueError without touching the arrays when \<open>K = 0\<close>; otherwise it returns,
  and with \<open>j\<close> the first index of the maximum stored metric: if the new
  metric is strictly smaller than the metric of slot \<open>j\<close>, exactly slot \<open>j\<close>
  of both arrays is overwritten (new metric, new file name), else the state is
  returned unchanged and no file operation happens. The new state again
  satisfies the invariant (both arrays of length \<open>K\<close>, a slot without a name
  holding \<open>+\<infinity>\<close>), and so does the initial state.
\<close>

theorem consider_metric_one_slot:
  assumes "slots_inv K S"
  shows "slots_inv K (init_slots K) \<and>
    (if K = 0 then consider_metric X m e c d S = (Inl ValueError, [])
     else \<exists>j. np_argmax (best_losses S) = Inr j \<and> is_first_max (best_losses S) j \<and>
        (if fl_lt c (best_losses S ! j)
         then \<exists>S'. fst (consider_metric X m e c d S) = Inr S' \<and> slots_inv K S' \<and>
                best_losses S' = (best_losses S)[j := c] \<and>
                model_names S' = (model_names S)[j := Some (fst (save_model X m e c d ''''))]
         else consider_metric X m e c d S = (Inr S, [])))"
proof (cases "K = 0")
  case True
  then have "consider_metric X m e c d S = (Inl ValueError, [])"
    using assms by (simp add: slots_inv_def consider_metric_def np_argmax_def)
  then show ?thesis using True slots_inv_init[of K] by simp
next
  case False
  then have ne: "best_losses S \<noteq> []" and nn: "NaN \<notin> set (best_losses S)"
    using assms by (auto simp: slots_inv_def)
  from np_argmax_first_max[OF nn ne] obtain j
    where j: "np_argmax (best_losses S) = Inr j" "is_first_max (best_losses S) j" by blast
  have jK: "j < K" using j(2) assms by (simp add: is_first_max_def slots_inv_def)
  then have jn: "\<not> length (model_names S) \<le> j" using assms by (simp add: slots_inv_def)
  show ?thesis
  proof (cases "fl_lt c (best_losses S ! j)")
    case True
    then show ?thesis
      using False j jn slots_inv_update[OF assms jK True]
      by (simp add: slots_inv_init consider_metric_def Let_def split_beta)
  next
    case False
    then show ?thesis
      using \<open>K \<noteq> 0\<close> j jn by (simp add: slots_inv_init consider_metric_def)
  qed
qed

text \<open>
  An instance: slots \<open>[5, +\<infinity>]\<close>, the second one unfilled, and the new metric 3;
  the first maximum is slot 1, which is overwritten.
\<close>

theorem consider_metric_one_slot_witness:
  "slots_inv 2 \<lparr> best_losses = [Fin 5, PInf], model_names = [Some ''a'', None] \<rparr> \<and>
   fst (consider_metric demo_ext 0 1 (Fin 3) ''d''
          \<lparr> best_losses = [Fin 5, PInf], model_names = [Some ''a'', None] \<rparr>)
     = Inr \<lparr> best_losses = [Fin 5, Fin 3],
             model_names = [Some ''a'', Some (fst (save_model demo_ext 0 1 (Fin 3) ''d'' ''''))] \<rparr>"
proof -
  let ?S = "\<lparr> best_losses = [Fin 5, PInf], model_names = [Some ''a'', None] \<rparr>"
  have h: "slots_inv 2 ?S"
    by (simp add: slots_inv_def numeral_2_eq_2 less_Suc_eq nth_Cons')
  have a: "np_argmax (best_losses ?S) = Inr 1"
    by (simp add: np_argmax_def)
  from consider_metric_one_slot[OF h, of demo_ext 0 1 "Fin 3" "''d''"] a
  obtain S' where S': "fst (consider_metric demo_ext 0 1 (Fin 3) ''d'' ?S) = Inr S'"
      "best_losses S' = [Fin 5, Fin 3]"
      "model_names S' = [Some ''a'', Some (fst (save_model demo_ext 0 1 (Fin 3) ''d'' ''''))]"
    by auto
  then have "S' = \<lparr> best_losses = [Fin 5, Fin 3],
             model_names = [Some ''a'', Some (fst (save_model demo_ext 0 1 (Fin 3) ''d'' ''''))] \<rparr>"
    by simp
  with h S'(1) show ?thesis by simp
qed

section \<open>Degenerate runs\<close>

lemma bind_Inl [simp]: "bind (Inl e, evs) f = (Inl e, evs)"
  by (simp add: bind_def)

lemma bind_Inr [simp]: "bind (Inr a, evs) f = (fst (f a), evs @ snd (f a))"
  by (simp add: bind_def split_beta)

text \<open>
  C9. With \<open>nepochs = 0\<close> the epoch loop runs no iteration, the writer is
  flushed and closed, and the final test pass reads the variable
  \<^verbatim>\<open>true_epoch\<close>, which was never assigned: \<^verbatim>\<open>fit\<close> raises
  UnboundLocalError and returns nothing.
\<close>

theorem fit_zero_epochs_unbound:
  "fit X model train_dataloader val_dataloader test_dataloader 0 save_dir top_checkpoints_n
     loss_metric write_freq test_freq prev_epochs = (Inl UnboundLocalError, [Flush, Close])"
  by (simp add: fit_def)

text \<open>
  C10. On a dataloader with no batches each of the three loops raises
  ZeroDivisionError when it divides the total loss by the number of batches;
  no value is returned and no event is emitted.
\<close>

theorem loops_empty_split_zero_division:
  "train_loop X model [] epoch write_freq = (Inl ZeroDivisionError, []) \<and>
   validation_loop X model [] epoch write_freq = (Inl ZeroDivisionError, []) \<and>
   test_loop X model [] epoch write_freq = (Inl ZeroDivisionError, [])"
  by (simp add: train_loop_def validation_loop_def test_loop_def)

section \<open>The schedule of test passes in fit\<close>

lemma markers_Nil [simp]: "markers [] = []"
  by (simp add: markers_def)

lemma markers_append [simp]: "markers (xs @ ys) = markers xs @ markers ys"
  by (simp add: markers_def)

lemma markers_Cons [simp]: "markers (x # xs) = marker_of x @ markers xs"
  by (simp add: markers_def)















section \<open>The run with two slots and the metrics 5, 3, 4, 1\<close>

lemma bind_eval: "fst c = Inr a \<Longrightarrow> bind c f = (fst (f a), snd c @ snd (f a))"
  by (cases c) (simp add: bind_def split_beta)

lemma file_ops_simps [simp]:
  "file_ops [] = []"
  "file_ops (x # xs) = file_op_of x @ file_ops xs"
  "file_ops (xs @ ys) = file_ops xs @ file_ops ys"
  by (simp_all add: file_ops_def)

lemma round_half_even_of_int: "round_half_even (of_int k) = k"
  by (simp add: round_half_even_def)

lemma show_nat_digit: "n < 10 \<Longrightarrow> show_nat n = [digit_char n]"
  by (subst show_nat.simps) simp

lemma show_nat_small:
  "show_nat 0 = ''0''" "show_nat 1 = ''1''" "show_nat (Suc 0) = ''1''" "show_nat 2 = ''2''"
  "show_nat 3 = ''3''" "show_nat 4 = ''4''" "show_nat 5 = ''5''"
  by (simp_all add: show_nat_digit digit_char_def)

lemma show_int_small:
  "show_int 0 = ''0''" "show_int 1 = ''1''" "show_int 2 = ''2''" "show_int 3 = ''3''"
  by (simp_all add: show_int_def show_nat_small)

text \<open>A float with an integral value is printed with eight zeros after the point.\<close>

lemma format_f_8_of_nat: "format_f 8 (Fin (of_nat k)) = show_nat k @ ''.00000000''"
proof -
  have a: "\<bar>real k\<bar> * 10 ^ 8 = of_int (int k * 10 ^ 8)" by simp
  have r: "round_half_even (\<bar>real k\<bar> * 10 ^ 8) = int k * 10 ^ 8"
    unfolding a by (rule round_half_even_of_int)
  have q: "nat (int k * 10 ^ 8) = k * 10 ^ 8" by (simp add: nat_mult_distrib)
  have p: "pad_zeros 8 ''0'' = ''00000000''" by (simp add: pad_zeros_def eval_nat_numeral)
  show ?thesis
    unfolding format_f.simps r q Let_def by (simp add: show_nat_small p)
qed

lemma format_f_8_small:
  "format_f 8 (Fin 5) = ''5.00000000''" "format_f 8 (Fin 3) = ''3.00000000''"
  "format_f 8 (Fin 4) = ''4.00000000''" "format_f 8 (Fin 1) = ''1.00000000''"
  using format_f_8_of_nat[of 5] format_f_8_of_nat[of 3] format_f_8_of_nat[of 4]
    format_f_8_of_nat[of 1]
  by (simp_all add: show_nat_small)

lemmas demo_eval = fit_epoch_def train_loop_def validation_loop_def test_loop_def demo_ext_def
  consider_metric_def np_argmax_def save_model_def delete_checkpoint_def Let_def
  show_int_small format_f_8_small

lemma demo_epoch_0:
  "fst (fit_epoch demo_ext [()] [()] [()] ''ckpt'' ''train'' 100 10 0 0
     \<lparr> fs_model = 0,
       fs_slots = \<lparr> best_losses = [PInf, PInf], model_names = [None, None] \<rparr>,
       train_losses = [], val_losses = [], test_losses = [], true_epoch = None \<rparr>)
   = Inr \<lparr> fs_model = Suc 0,
           fs_slots = \<lparr> best_losses = [Fin 5, PInf],
                        model_names = [Some ''ckpt/model_epoch=0_loss=5.00000000.pt'', None] \<rparr>,
           train_losses = [Fin 5], val_losses = [Fin 3], test_losses = [Fin 3],
           true_epoch = Some 0 \<rparr>"
  "file_ops (snd (fit_epoch demo_ext [()] [()] [()] ''ckpt'' ''train'' 100 10 0 0
     \<lparr> fs_model = 0,
       fs_slots = \<lparr> best_losses = [PInf, PInf], model_names = [None, None] \<rparr>,
       train_losses = [], val_losses = [], test_losses = [], true_epoch = None \<rparr>))
   = [Saved ''ckpt/model_epoch=0_loss=5.00000000.pt'']"
  by (simp_all add: demo_eval)

lemma demo_epoch_1:
  "fst (fit_epoch demo_ext [()] [()] [()] ''ckpt'' ''train'' 100 10 0 1
     \<lparr> fs_model = Suc 0,
       fs_slots = \<lparr> best_losses = [Fin 5, PInf],
                    model_names = [Some ''ckpt/model_epoch=0_loss=5.00000000.pt'', None] \<rparr>,
       train_losses = [Fin 5], val_losses = [Fin 3], test_losses = [Fin 3],
       true_epoch = Some 0 \<rparr>)
   = Inr \<lparr> fs_model = 2,
           fs_slots = \<lparr> best_losses = [Fin 5, Fin 3],
                        model_names = [Some ''ckpt/model_epoch=0_loss=5.00000000.pt'',
                                       Some ''ckpt/model_epoch=1_loss=3.00000000.pt''] \<rparr>,
           train_losses = [Fin 5, Fin 3], val_losses = [Fin 3, Fin 4], test_losses = [Fin 3],
           true_epoch = Some 1 \<rparr>"
  "file_ops (snd (fit_epoch demo_ext [()] [()] [()] ''ckpt'' ''train'' 100 10 0 1
     \<lparr> fs_model = Suc 0,
       fs_slots = \<lparr> best_losses = [Fin 5, PInf],
                    model_names = [Some ''ckpt/model_epoch=0_loss=5.00000000.pt'', None] \<rparr>,
       train_losses = [Fin 5], val_losses = [Fin 3], test_losses = [Fin 3],
       true_epoch = Some 0 \<rparr>))
   = [Saved ''ckpt/model_epoch=1_loss=3.00000000.pt'']"
  by (simp_all add: demo_eval)

lemma demo_epoch_2:
  "fst (fit_epoch demo_ext [()] [()] [()] ''ckpt'' ''train'' 100 10 0 2
     \<lparr> fs_model = 2,
       fs_slots = \<lparr> best_losses = [Fin 5, Fin 3],
                    model_names = [Some ''ckpt/model_epoch=0_loss=5.00000000.pt'',
                                   Some ''ckpt/model_epoch=1_loss=3.00000000.pt''] \<rparr>,
       train_losses = [Fin 5, Fin 3], val_losses = [Fin 3, Fin 4], test_losses = [Fin 3],
       true_epoch = Some 1 \<rparr>)
   = Inr \<lparr> fs_model = 3,
           fs_slots = \<lparr> best_losses = [Fin 4, Fin 3],
                        model_names = [Some ''ckpt/model_epoch=2_loss=4.00000000.pt'',
                                       Some ''ckpt/model_epoch=1_loss=3.00000000.pt''] \<rparr>,
           train_losses = [Fin 5, Fin 3, Fin 4], val_losses = [Fin 3, Fin 4, Fin 1],
           test_losses = [Fin 3], true_epoch = Some 2 \<rparr>"
  "file_ops (snd (fit_epoch demo_ext [()] [()] [()] ''ckpt'' ''train'' 100 10 0 2
     \<lparr> fs_model = 2,
       fs_slots = \<lparr> best_losses = [Fin 5, Fin 3],
                    model_names = [Some ''ckpt/model_epoch=0_loss=5.00000000.pt'',
                                   Some ''ckpt/model_epoch=1_loss=3.00000000.pt''] \<rparr>,
       train_losses = [Fin 5, Fin 3], val_losses = [Fin 3, Fin 4], test_losses = [Fin 3],
       true_epoch = Some 1 \<rparr>))
   = [Removed ''ckpt/model_epoch=0_loss=5.00000000.pt'',
      Saved ''ckpt/model_epoch=2_loss=4.00000000.pt'']"
  by (simp_all add: demo_eval)

lemma demo_epoch_3:
  "fst (fit_epoch demo_ext [()] [()] [()] ''ckpt'' ''train'' 100 10 0 3
     \<lparr> fs_model = 3,
       fs_slots = \<lparr> best_losses = [Fin 4, Fin 3],
                    model_names = [Some ''ckpt/model_epoch=2_loss=4.00000000.pt'',
                                   Some ''ckpt/model_epoch=1_loss=3.00000000.pt''] \<rparr>,
       train_losses = [Fin 5, Fin 3, Fin 4], val_losses = [Fin 3, Fin 4, Fin 1],
       test_losses = [Fin 3], true_epoch = Some 2 \<rparr>)
   = Inr \<lparr> fs_model = 4,
           fs_slots = \<lparr> best_losses = [Fin 1, Fin 3],
                        model_names = [Some ''ckpt/model_epoch=3_loss=1.00000000.pt'',
                                       Some ''ckpt/model_epoch=1_loss=3.00000000.pt''] \<rparr>,
           train_losses = [Fin 5, Fin 3, Fin 4, Fin 1], val_losses = [Fin 3, Fin 4, Fin 1, Fin 0],
           test_losses = [Fin 3], true_epoch = Some 3 \<rparr>"
  "file_ops (snd (fit_epoch demo_ext [()] [()] [()] ''ckpt'' ''train'' 100 10 0 3
     \<lparr> fs_model = 3,
       fs_slots = \<lparr> best_losses = [Fin 4, Fin 3],
                    model_names = [Some ''ckpt/model_epoch=2_loss=4.00000000.pt'',
                                   Some ''ckpt/model_epoch=1_loss=3.00000000.pt''] \<rparr>,
       train_losses = [Fin 5, Fin 3, Fin 4], val_losses = [Fin 3, Fin 4, Fin 1],
       test_losses = [Fin 3], true_epoch = Some 2 \<rparr>))
   = [Removed ''ckpt/model_epoch=2_loss=4.00000000.pt'',
      Saved ''ckpt/model_epoch=3_loss=1.00000000.pt'']"
  by (simp_all add: demo_eval)

lemma demo_loop:
  "fst (fit_loop demo_ext [()] [()] [()] ''ckpt'' ''train'' 100 10 0 [0, 1, 2, 3]
     \<lparr> fs_model = 0,
       fs_slots = \<lparr> best_losses = [PInf, PInf], model_names = [None, None] \<rparr>,
       train_losses = [], val_losses = [], test_losses = [], true_epoch = None \<rparr>)
   = Inr \<lparr> fs_model = 4,
           fs_slots = \<lparr> best_losses = [Fin 1, Fin 3],
                        model_names = [Some ''ckpt/model_epoch=3_loss=1.00000000.pt'',
                                       Some ''ckpt/model_epoch=1_loss=3.00000000.pt''] \<rparr>,
           train_losses = [Fin 5, Fin 3, Fin 4, Fin 1], val_losses = [Fin 3, Fin 4, Fin 1, Fin 0],
           test_losses = [Fin 3], true_epoch = Some 3 \<rparr>"
  "file_ops (snd (fit_loop demo_ext [()] [()] [()] ''ckpt'' ''train'' 100 10 0 [0, 1, 2, 3]
     \<lparr> fs_model = 0,
       fs_slots = \<lparr> best_losses = [PInf, PInf], model_names = [None, None] \<rparr>,
       train_losses = [], val_losses = [], test_losses = [], true_epoch = None \<rparr>))
   = [Saved ''ckpt/model_epoch=0_loss=5.00000000.pt'',
      Saved ''ckpt/model_epoch=1_loss=3.00000000.pt'',
      Removed ''ckpt/model_epoch=0_loss=5.00000000.pt'',
      Saved ''ckpt/model_epoch=2_loss=4.00000000.pt'',
      Removed ''ckpt/model_epoch=2_loss=4.00000000.pt'',
      Saved ''ckpt/model_epoch=3_loss=1.00000000.pt'']"
  by (simp_all add: bind_eval[OF demo_epoch_0(1)] bind_eval[OF demo_epoch_1(1)]
        bind_eval[OF demo_epoch_2(1)] bind_eval[OF demo_epoch_3(1)]
        demo_epoch_0(2) demo_epoch_1(2) demo_epoch_2(2) demo_epoch_3(2))

text \<open>
  C2. \<^verbatim>\<open>fit\<close> with two slots, selection metric \<^verbatim>\<open>train\<close>, and a model whose
  training losses in four successive epochs are 5, 3, 4, 1: after the fourth
  epoch the slots hold the metrics 1 and 3; exactly two files were removed,
  first the one saved with metric 5 (epoch 0) and then the one saved with
  metric 4 (epoch 2); the returned names are the files of metrics 1 and 3.
\<close>

theorem fit_two_slots_scenario:
  "fst (fit_loop demo_ext [()] [()] [()] ''ckpt'' ''train'' 100 10 0 (map int [0 ..< nat 4])
     \<lparr> fs_model = 0, fs_slots = init_slots 2,
       train_losses = [], val_losses = [], test_losses = [], true_epoch = None \<rparr>)
   = Inr \<lparr> fs_model = 4,
           fs_slots = \<lparr> best_losses = [Fin 1, Fin 3],
                        model_names = [Some ''ckpt/model_epoch=3_loss=1.00000000.pt'',
                                       Some ''ckpt/model_epoch=1_loss=3.00000000.pt''] \<rparr>,
           train_losses = [Fin 5, Fin 3, Fin 4, Fin 1], val_losses = [Fin 3, Fin 4, Fin 1, Fin 0],
           test_losses = [Fin 3], true_epoch = Some 3 \<rparr>
   \<and> file_ops (snd (fit demo_ext 0 [()] [()] [()] 4 ''ckpt'' 2 ''train'' 100 10 0))
     = [Saved ''ckpt/model_epoch=0_loss=5.00000000.pt'',
        Saved ''ckpt/model_epoch=1_loss=3.00000000.pt'',
        Removed ''ckpt/model_epoch=0_loss=5.00000000.pt'',
        Saved ''ckpt/model_epoch=2_loss=4.00000000.pt'',
        Removed ''ckpt/model_epoch=2_loss=4.00000000.pt'',
        Saved ''ckpt/model_epoch=3_loss=1.00000000.pt'']
   \<and> fst (fit demo_ext 0 [()] [()] [()] 4 ''ckpt'' 2 ''train'' 100 10 0)
     = Inr ([Fin 5, Fin 3, Fin 4, Fin 1], [Fin 3, Fin 4, Fin 1, Fin 0], [Fin 3, Fin 0],
            [Some ''ckpt/model_epoch=3_loss=1.00000000.pt'',
             Some ''ckpt/model_epoch=1_loss=3.00000000.pt''])"
proof -
  have es: "map int [0 ..< nat 4] = [0, 1, 2, 3]" by (simp add: upt_rec)
  have s0: "init_slots 2 = \<lparr> best_losses = [PInf, PInf], model_names = [None, None] \<rparr>"
    by (simp add: init_slots_def numeral_2_eq_2)
  define c where "c = fit_loop demo_ext [()] [()] [()] ''ckpt'' ''train'' 100 10 0 [0, 1, 2, 3]
     \<lparr> fs_model = 0,
       fs_slots = \<lparr> best_losses = [PInf, PInf], model_names = [None, None] \<rparr>,
       train_losses = [], val_losses = [], test_losses = [], true_epoch = None \<rparr>"
  have c1: "fst c = Inr \<lparr> fs_model = 4,
           fs_slots = \<lparr> best_losses = [Fin 1, Fin 3],
                        model_names = [Some ''ckpt/model_epoch=3_loss=1.00000000.pt'',
                                       Some ''ckpt/model_epoch=1_loss=3.00000000.pt''] \<rparr>,
           train_losses = [Fin 5, Fin 3, Fin 4, Fin 1], val_losses = [Fin 3, Fin 4, Fin 1, Fin 0],
           test_losses = [Fin 3], true_epoch = Some 3 \<rparr>"
    unfolding c_def by (rule demo_loop(1))
  have c2: "file_ops (snd c)
     = [Saved ''ckpt/model_epoch=0_loss=5.00000000.pt'',
        Saved ''ckpt/model_epoch=1_loss=3.00000000.pt'',
        Removed ''ckpt/model_epoch=0_loss=5.00000000.pt'',
        Saved ''ckpt/model_epoch=2_loss=4.00000000.pt'',
        Removed ''ckpt/model_epoch=2_loss=4.00000000.pt'',
        Saved ''ckpt/model_epoch=3_loss=1.00000000.pt'']"
    unfolding c_def by (rule demo_loop(2))
  show ?thesis
    unfolding fit_def es s0 c_def[symmetric]
    by (simp add: bind_eval[OF c1] c1 c2 test_loop_def demo_ext_def Let_def)
qed

section \<open>The name and the contents of a checkpoint file\<close>

lemma digit_val_digit_char: "d < 10 \<Longrightarrow> digit_val (digit_char d) = d"
proof -
  assume "d < 10"
  then have "d = 0 \<or> d = 1 \<or> d = 2 \<or> d = 3 \<or> d = 4 \<or> d = 5 \<or> d = 6 \<or> d = 7 \<or> d = 8 \<or> d = 9"
    by arith
  then show ?thesis
    by (elim disjE) (simp_all add: digit_char_def digit_val_def)
qed

lemma nat_of_digits_snoc: "nat_of_digits (s @ [c]) = 10 * nat_of_digits s + digit_val c"
  by (simp add: nat_of_digits_def)

lemma nat_of_digits_show_nat: "nat_of_digits (show_nat n) = n"
proof (induction n rule: show_nat.induct)
  case (1 n)
  show ?case
  proof (cases "n < 10")
    case True
    then show ?thesis
      by (simp add: show_nat_digit nat_of_digits_def digit_val_digit_char)
  next
    case False
    then have "show_nat n = show_nat (n div 10) @ [digit_char (n mod 10)]"
      by (subst show_nat.simps) simp
    then show ?thesis
      using 1[OF False] by (simp add: nat_of_digits_snoc digit_val_digit_char)
  qed
qed

lemma nat_of_digits_zeros: "nat_of_digits (replicate k (CHR ''0'') @ s) = nat_of_digits s"
proof -
  have "foldl (\<lambda>a c. 10 * a + digit_val c) 0 (replicate k (CHR ''0'')) = 0"
    by (induction k) (simp_all add: digit_val_def)
  then show ?thesis by (simp add: nat_of_digits_def)
qed

lemma length_show_nat: "n < 10 ^ d \<Longrightarrow> 0 < d \<Longrightarrow> length (show_nat n) \<le> d"
proof (induction n arbitrary: d rule: show_nat.induct)
  case (1 n)
  show ?case
  proof (cases "n < 10")
    case True
    then show ?thesis using "1.prems" by (simp add: show_nat_digit)
  next
    case False
    obtain e where e: "d = Suc e" using "1.prems"(2) by (cases d) auto
    have e0: "0 < e"
    proof (rule ccontr)
      assume "\<not> 0 < e"
      then show False using e "1.prems"(1) False by simp
    qed
    have "n div 10 < 10 ^ e" using "1.prems"(1) e by (simp add: less_mult_imp_div_less)
    from "1.IH"[OF False this e0] have "length (show_nat (n div 10)) \<le> e" .
    moreover have "show_nat n = show_nat (n div 10) @ [digit_char (n mod 10)]"
      using False by (subst show_nat.simps) simp
    ultimately show ?thesis using e by simp
  qed
qed

lemma length_pad_zeros: "length s \<le> w \<Longrightarrow> length (pad_zeros w s) = w"
  by (simp add: pad_zeros_def)

lemma round_half_even_error: "\<bar>of_int (round_half_even r) - r\<bar> \<le> 1 / 2"
proof -
  have "of_int \<lfloor>r\<rfloor> \<le> r" "r < of_int \<lfloor>r\<rfloor> + 1" by linarith+
  then show ?thesis by (auto simp: round_half_even_def Let_def abs_le_iff)
qed

lemma round_half_even_nonneg: "0 \<le> r \<Longrightarrow> 0 \<le> round_half_even r"
proof -
  assume "0 \<le> r"
  then have "0 \<le> \<lfloor>r\<rfloor>" by simp
  then show ?thesis by (auto simp: round_half_even_def Let_def)
qed

lemma div_mod_real: "0 < k \<Longrightarrow> real (q div k) + real (q mod k) / real k = real q / real k"
proof -
  assume k: "0 < k"
  have "real q = real (q div k) * real k + real (q mod k)"
    by (metis div_mult_mod_eq of_nat_add of_nat_mult)
  then show ?thesis using k by (simp add: field_simps)
qed

text \<open>
  C8, in the form that holds of the code. For a finite loss \<open>x\<close>, \<^verbatim>\<open>save_model\<close> writes one file, whose
  contents are the dictionary with exactly the two entries
  \<^verbatim>\<open>model_state_dict\<close> and \<^verbatim>\<open>optimizer_state_dict\<close>, and returns its name:
  directory, epoch in decimal, the loss printed with exactly eight digits
  after the point (the decimal nearest to \<open>\<bar>x\<bar>\<close>, hence within
  \<open>0.5 \<sqdot> 10\<^sup>-\<^sup>8\<close> of it), and the tag after an underscore when the tag is not
  empty.
\<close>

theorem save_model_eight_decimals:
  "(let q = nat (round_half_even (\<bar>x\<bar> * 10 ^ 8));
        ip = show_nat (q div 10 ^ 8);
        fr = pad_zeros 8 (show_nat (q mod 10 ^ 8));
        name = savedir @ ''/model_epoch='' @ show_int epoch @ ''_loss=''
               @ (if x < 0 then ''-'' else '''') @ ip @ ''.'' @ fr
               @ (if tag = '''' then '''' else ''_'' @ tag) @ ''.pt''
    in save_model X m epoch (Fin x) savedir tag
         = (name, [TorchSave name [(''model_state_dict'', model_state_dict X m),
                                   (''optimizer_state_dict'', optimizer_state_dict X m)]])
       \<and> length fr = 8
       \<and> nat_of_digits ip = q div 10 ^ 8
       \<and> nat_of_digits fr = q mod 10 ^ 8
       \<and> \<bar>real (nat_of_digits ip) + real (nat_of_digits fr) / 10 ^ 8 - \<bar>x\<bar>\<bar> \<le> 1 / (2 * 10 ^ 8)
       \<and> show_int epoch = (if epoch < 0 then ''-'' else '''') @ show_nat (nat \<bar>epoch\<bar>)
       \<and> nat_of_digits (show_nat (nat \<bar>epoch\<bar>)) = nat \<bar>epoch\<bar>)"
proof -
  define q where "q = nat (round_half_even (\<bar>x\<bar> * 10 ^ 8))"
  define fr where "fr = pad_zeros 8 (show_nat (q mod 10 ^ 8))"
  have len: "length fr = 8"
    unfolding fr_def by (rule length_pad_zeros, rule length_show_nat) simp_all
  have ip: "nat_of_digits (show_nat (q div 10 ^ 8)) = q div 10 ^ 8"
    by (rule nat_of_digits_show_nat)
  have frv: "nat_of_digits fr = q mod 10 ^ 8"
    unfolding fr_def pad_zeros_def by (simp add: nat_of_digits_zeros nat_of_digits_show_nat)
  have nn: "0 \<le> round_half_even (\<bar>x\<bar> * 10 ^ 8)"
    by (rule round_half_even_nonneg) simp
  have rq: "real q = of_int (round_half_even (\<bar>x\<bar> * 10 ^ 8))"
    unfolding q_def using nn by simp
  have e1: "real (q div 10 ^ 8) + real (q mod 10 ^ 8) / 10 ^ 8 = real q / 10 ^ 8"
    using div_mod_real[of "10 ^ 8" q] by simp
  have e2: "real q / 10 ^ 8 - \<bar>x\<bar> = (real q - \<bar>x\<bar> * 10 ^ 8) / 10 ^ 8"
    by (simp add: field_simps)
  have e3: "\<bar>real q - \<bar>x\<bar> * 10 ^ 8\<bar> \<le> 1 / 2"
    unfolding rq by (rule round_half_even_error)
  have "\<bar>(real q - \<bar>x\<bar> * 10 ^ 8) / 10 ^ 8\<bar> = \<bar>real q - \<bar>x\<bar> * 10 ^ 8\<bar> / 10 ^ 8"
    by simp
  also have "\<dots> \<le> (1 / 2) / 10 ^ 8"
    by (rule divide_right_mono[OF e3]) simp
  finally have err:
    "\<bar>real (q div 10 ^ 8) + real (q mod 10 ^ 8) / 10 ^ 8 - \<bar>x\<bar>\<bar> \<le> 1 / (2 * 10 ^ 8)"
    unfolding e1 e2 by simp
  have ep: "show_int epoch = (if epoch < 0 then ''-'' else '''') @ show_nat (nat \<bar>epoch\<bar>)"
    by (simp add: show_int_def)
  have sv: "save_model X m epoch (Fin x) savedir tag
     = (savedir @ ''/model_epoch='' @ show_int epoch @ ''_loss=''
               @ (if x < 0 then ''-'' else '''') @ show_nat (q div 10 ^ 8) @ ''.'' @ fr
               @ (if tag = '''' then '''' else ''_'' @ tag) @ ''.pt'',
        [TorchSave (savedir @ ''/model_epoch='' @ show_int epoch @ ''_loss=''
               @ (if x < 0 then ''-'' else '''') @ show_nat (q div 10 ^ 8) @ ''.'' @ fr
               @ (if tag = '''' then '''' else ''_'' @ tag) @ ''.pt'')
           [(''model_state_dict'', model_state_dict X m),
            (''optimizer_state_dict'', optimizer_state_dict X m)]])"
    unfolding save_model_def format_f.simps Let_def q_def[symmetric] fr_def[symmetric]
    by simp
  show ?thesis
    unfolding Let_def q_def[symmetric] fr_def[symmetric]
    using sv len ip frv err ep nat_of_digits_show_nat[of "nat \<bar>epoch\<bar>"]
    by (simp only: ip frv)
qed

lemma round_half_even_example:
  "round_half_even (\<bar>0.12345678\<bar> * 10 ^ 8) = 12345678"
  "round_half_even (\<bar>0.12345678\<bar> * 10 ^ 6) = 123457"
  by (simp_all add: round_half_even_def)

lemma show_nat_example:
  "show_nat 12345678 = ''12345678''" "show_nat 123457 = ''123457''"
  by (simp_all add: show_nat.simps digit_char_def)

lemma format_f_example:
  "format_f 8 (Fin 0.12345678) = ''0.12345678''"
  "format_f 6 (Fin 0.12345678) = ''0.123457''"
  unfolding format_f.simps round_half_even_example Let_def
  by (simp_all add: show_nat_example show_nat_small pad_zeros_def)

text \<open>
  C8 as worded has six decimals. For epoch 3 and loss 0.12345678 the returned
  name carries all eight decimals of the loss; the name with the loss printed
  to six decimals is a different string.
\<close>

theorem save_model_six_decimals_counterexample:
  "fst (save_model demo_ext 0 3 (Fin 0.12345678) ''ckpt'' '''')
     = ''ckpt/model_epoch=3_loss=0.12345678.pt''
   \<and> ''ckpt'' @ ''/model_epoch='' @ show_int 3 @ ''_loss='' @ format_f 6 (Fin 0.12345678) @ ''.pt''
     = ''ckpt/model_epoch=3_loss=0.123457.pt''
   \<and> fst (save_model demo_ext 0 3 (Fin 0.12345678) ''ckpt'' '''')
     \<noteq> ''ckpt'' @ ''/model_epoch='' @ show_int 3 @ ''_loss='' @ format_f 6 (Fin 0.12345678) @ ''.pt''"
  unfolding save_model_def format_f_example show_int_small Let_def
  by simp

section \<open>Properties of the loss module\<close>

lemma map2_ones_row:
  fixes ys ls :: "real list"
  assumes "length ys = c" and "length ls = c"
  shows "map2 (*) (map2 (\<lambda>y (w0, w1). y * w1 + (1 - y) * w0) ys (replicate c (1, 1))) ls = ls"
  using assms by (intro nth_equalityI) simp_all

lemma map2_ones_mat:
  fixes Y L :: "real list list"
  assumes "length Y = b" and "length L = b"
    and "\<And>i. i < b \<Longrightarrow> length (Y ! i) = c \<and> length (L ! i) = c"
  shows "map2 (map2 (*))
           (map2 (map2 (\<lambda>y (w0, w1). y * w1 + (1 - y) * w0)) Y (replicate b (replicate c (1, 1)))) L
         = L"
  using assms by (intro nth_equalityI) (simp_all add: map2_ones_row)

lemma map_mult_one_mat: "map (map ((*) (1::real))) L = L"
proof -
  have "map ((*) (1::real)) = (\<lambda>r. r)" by (rule ext) (simp add: map_idI)
  then show ?thesis by simp
qed

lemma wf_tensor_nth: "wf_tensor t \<Longrightarrow> i < shape0 t \<Longrightarrow> length (rows t ! i) = shape1 t"
  by (simp add: wf_tensor_def list_all_length)

lemma criterion_Inr:
  assumes "criterion y_pred y_true = Inr l"
  shows "shape0 y_pred = shape0 y_true" and "shape1 y_pred = shape1 y_true"
    and "l = \<lparr> shape0 = shape0 y_pred, shape1 = shape1 y_pred,
              rows = map2 (map2 bce_elem) (rows y_pred) (rows y_true) \<rparr>"
  using assms by (auto simp: criterion_def split: if_splits)

lemma subs_weighted_BCE_ones:
  assumes "wf_tensor y_pred" and "wf_tensor y_true"
  shows "subs_weighted_BCE y_pred y_true None
         = subs_weighted_BCE y_pred y_true (Some (ones_weights (shape0 y_true) (shape1 y_true)))"
proof (cases "criterion y_pred y_true")
  case (Inl e)
  then show ?thesis by (simp add: subs_weighted_BCE_def)
next
  case (Inr l)
  note c = criterion_Inr[OF Inr]
  let ?L = "map2 (map2 bce_elem) (rows y_pred) (rows y_true)"
  have lenP: "length (rows y_pred) = shape0 y_true" using assms(1) c(1) by (simp add: wf_tensor_def)
  have lenY: "length (rows y_true) = shape0 y_true" using assms(2) by (simp add: wf_tensor_def)
  have lenL: "length ?L = shape0 y_true" using lenP lenY by simp
  have rowsL: "length (rows y_true ! i) = shape1 y_true \<and> length (?L ! i) = shape1 y_true"
    if "i < shape0 y_true" for i
    using that lenP lenY wf_tensor_nth[OF assms(1), of i] wf_tensor_nth[OF assms(2), of i] c(1,2)
    by simp
  have "map2 (map2 (*))
           (map2 (map2 (\<lambda>y (w0, w1). y * w1 + (1 - y) * w0)) (rows y_true)
              (replicate (shape0 y_true) (replicate (shape1 y_true) (1, 1)))) ?L = ?L"
    by (rule map2_ones_mat[OF lenY lenL rowsL])
  then show ?thesis
    using Inr c(3) by (simp add: subs_weighted_BCE_def ones_weights_def map_mult_one_mat Let_def del: map_map)
qed

lemma foldl_fl_add_Fin:
  "foldl fl_add (Fin a) (map (\<lambda>c. Fin (g c)) cs) = Fin (a + sum_list (map g cs))"
  by (induction cs arbitrary: a) (simp_all add: add.assoc)

lemma fl_sum_Fin: "fl_sum (map (\<lambda>c. Fin (g c)) cs) = Fin (sum_list (map g cs))"
  using foldl_fl_add_Fin[of 0 g cs] by (simp add: fl_sum_def)

lemma foldl_fl_add_NaN: "foldl fl_add NaN xs = NaN"
  by (induction xs) simp_all

lemma fl_sum_NaN: "cs \<noteq> [] \<Longrightarrow> fl_sum (map (\<lambda>c. NaN) cs) = NaN"
  by (cases cs) (simp_all add: fl_sum_def foldl_fl_add_NaN)

lemma column_sum:
  assumes "length P = b" and "length Y = b"
    and "\<And>i. i < b \<Longrightarrow> length (P ! i) = n \<and> length (Y ! i) = n" and "c < n"
  shows "sum_list (map (\<lambda>r. r ! c) (map2 (map2 f) P Y)) = (\<Sum>i = 0..<b. f (P ! i ! c) (Y ! i ! c))"
proof -
  have "sum_list (map (\<lambda>r. r ! c) (map2 (map2 f) P Y))
        = (\<Sum>i = 0..<b. map (\<lambda>r. r ! c) (map2 (map2 f) P Y) ! i)"
    using assms(1,2) by (simp add: sum_list_sum_nth)
  also have "\<dots> = (\<Sum>i = 0..<b. f (P ! i ! c) (Y ! i ! c))"
    using assms by (intro sum.cong) simp_all
  finally show ?thesis .
qed

lemma subs_weighted_BCE_None_value:
  assumes "wf_tensor y_pred" and "wf_tensor y_true"
    and "shape0 y_pred = shape0 y_true"
    and "shape1 y_pred = 957" and "shape1 y_true = 957"
    and "valid_probs y_pred"
  shows "subs_weighted_BCE y_pred y_true None
         = (if shape0 y_pred = 0 then Inr NaN
            else Inr (Fin (\<Sum>c = 0..<957.
                       (\<Sum>b = 0..<shape0 y_pred.
                           bce_elem (rows y_pred ! b ! c) (rows y_true ! b ! c))
                       / real (shape0 y_pred))))"
proof -
  let ?L = "map2 (map2 bce_elem) (rows y_pred) (rows y_true)"
  let ?B = "shape0 y_pred"
  have crit: "criterion y_pred y_true = Inr \<lparr> shape0 = ?B, shape1 = 957, rows = ?L \<rparr>"
    using assms(3-6) by (simp add: criterion_def valid_probs_def)
  have lenP: "length (rows y_pred) = ?B" using assms(1) by (simp add: wf_tensor_def)
  have lenY: "length (rows y_true) = ?B" using assms(2,3) by (simp add: wf_tensor_def)
  have rowsPY: "length (rows y_pred ! i) = 957 \<and> length (rows y_true ! i) = 957" if "i < ?B" for i
    using that wf_tensor_nth[OF assms(1), of i] wf_tensor_nth[OF assms(2), of i] assms(3-5)
    by simp
  show ?thesis
  proof (cases "?B = 0")
    case True
    have "[0 ..< 957] \<noteq> ([]::nat list)" by simp
    from fl_sum_NaN[OF this] show ?thesis
      using True crit by (simp add: subs_weighted_BCE_def mean_dim0_def map_mult_one_mat Let_def del: map_map)
  next
    case False
    have col: "sum_list (map (\<lambda>r. r ! c) ?L)
               = (\<Sum>b = 0..<?B. bce_elem (rows y_pred ! b ! c) (rows y_true ! b ! c))"
      if "c < 957" for c
      by (rule column_sum[OF lenP lenY rowsPY that])
    have "mean_dim0 \<lparr> shape0 = ?B, shape1 = 957, rows = ?L \<rparr>
          = map (\<lambda>c. Fin ((\<Sum>b = 0..<?B. bce_elem (rows y_pred ! b ! c) (rows y_true ! b ! c))
                           / real ?B)) [0 ..< 957]"
      using False col by (simp add: mean_dim0_def)
    moreover have "sum_list (map (\<lambda>c. (\<Sum>b = 0..<?B. bce_elem (rows y_pred ! b ! c) (rows y_true ! b ! c))
                           / real ?B) [0 ..< 957])
          = (\<Sum>c = 0..<957. (\<Sum>b = 0..<?B. bce_elem (rows y_pred ! b ! c) (rows y_true ! b ! c))
                           / real ?B)"
      by (simp add: interv_sum_list_conv_sum_set_nat)
    ultimately show ?thesis
      using False crit
      by (simp add: subs_weighted_BCE_def map_mult_one_mat Let_def fl_sum_Fin del: map_map)
  qed
qed

text \<open>
  C6. For well-formed prediction and target tensors of shape \<open>(batch, 957)\<close>,
  the predictions being probabilities, \<^verbatim>\<open>subs_weighted_BCE\<close> without weights
  returns the sum over the 957 classes of the mean over the batch of the
  elementwise binary cross-entropy (NaN for an empty batch, whose means are
  NaN), and this is what the weighted path returns when all weights are one.
\<close>

theorem subs_weighted_BCE_unweighted:
  assumes "wf_tensor y_pred" and "wf_tensor y_true"
    and "shape0 y_pred = shape0 y_true"
    and "shape1 y_pred = 957" and "shape1 y_true = 957"
    and "valid_probs y_pred"
  shows "subs_weighted_BCE y_pred y_true None
         = (if shape0 y_pred = 0 then Inr NaN
            else Inr (Fin (\<Sum>c = 0..<957.
                       (\<Sum>b = 0..<shape0 y_pred.
                           bce_elem (rows y_pred ! b ! c) (rows y_true ! b ! c))
                       / real (shape0 y_pred))))
       \<and> subs_weighted_BCE y_pred y_true None
         = subs_weighted_BCE y_pred y_true (Some (ones_weights (shape0 y_true) 957))"
  using subs_weighted_BCE_None_value[OF assms] subs_weighted_BCE_ones[OF assms(1,2)] assms(5)
  by simp

text \<open>
  An instance: a batch of two rows, every prediction \<open>1/2\<close> and every target 1.
\<close>

theorem subs_weighted_BCE_unweighted_witness:
  "wf_tensor (const_tensor 2 957 (1 / 2)) \<and> wf_tensor (const_tensor 2 957 1)
   \<and> shape0 (const_tensor 2 957 (1 / 2)) = shape0 (const_tensor 2 957 1)
   \<and> shape1 (const_tensor 2 957 (1 / 2)) = 957 \<and> shape1 (const_tensor 2 957 1) = 957
   \<and> valid_probs (const_tensor 2 957 (1 / 2))
   \<and> subs_weighted_BCE (const_tensor 2 957 (1 / 2)) (const_tensor 2 957 1) None
       = Inr (Fin (957 * bce_elem (1 / 2) 1))
   \<and> subs_weighted_BCE (const_tensor 2 957 (1 / 2)) (const_tensor 2 957 1)
        (Some (ones_weights 2 957))
       = Inr (Fin (957 * bce_elem (1 / 2) 1))"
proof -
  let ?P = "const_tensor 2 957 (1 / 2)" and ?Y = "const_tensor 2 957 1"
  have h: "wf_tensor ?P" "wf_tensor ?Y" "shape0 ?P = shape0 ?Y" "shape1 ?P = 957"
    "shape1 ?Y = 957" "valid_probs ?P"
    by (simp_all add: const_tensor_def wf_tensor_def valid_probs_def list_all_length)
  have s: "(\<Sum>c = 0..<957. (\<Sum>b = 0..<shape0 ?P. bce_elem (rows ?P ! b ! c) (rows ?Y ! b ! c))
              / real (shape0 ?P))
           = (\<Sum>c = (0::nat)..<957. bce_elem (1 / 2) 1)"
    by (intro sum.cong refl) (simp add: const_tensor_def)
  have v: "(\<Sum>c = (0::nat)..<957. bce_elem (1 / 2) 1) = 957 * bce_elem (1 / 2) 1"
    by simp
  have z: "shape0 ?P \<noteq> 0" "shape0 ?Y = 2" by (simp_all add: const_tensor_def)
  from subs_weighted_BCE_unweighted[OF h]
  have r: "subs_weighted_BCE ?P ?Y None = Inr (Fin (957 * bce_elem (1 / 2) 1))"
    "subs_weighted_BCE ?P ?Y None = subs_weighted_BCE ?P ?Y (Some (ones_weights 2 957))"
    unfolding s v using z by auto
  from r(1) have "subs_weighted_BCE ?P ?Y (Some (ones_weights 2 957))
                  = Inr (Fin (957 * bce_elem (1 / 2) 1))"
    unfolding r(2) .
  with r(1) h show ?thesis by simp
qed



section \<open>Saving the predictions of inference\<close>

lemma ebind_simps [simp]:
  "ebind (Inl e) f = Inl e"
  "ebind (Inr a) f = f a"
  by (simp_all add: ebind_def)

lemma ebind_Inl_iff: "(\<exists>e. ebind r f = Inl e) = ((\<exists>e. r = Inl e) \<or> (\<exists>a. r = Inr a \<and> (\<exists>e. f a = Inl e)))"
  by (cases r) simp_all

lemma save_str_set_TextIO: "save_str_set TextIO preds savename = Inl AttributeError"
  by (simp add: save_str_set_def create_group_def)

lemma save_array_set_TextIO: "\<exists>e. save_array_set TextIO preds savename = Inl e"
  unfolding save_array_set_def Let_def
  by (simp add: ebind_Inl_iff create_group_def) (metis sumE)

lemma save_splits_fails:
  assumes "\<And>preds savename. \<exists>e. save_fxn TextIO preds savename = Inl e"
  shows "\<exists>e. save_splits save_fxn savedir s = Inl e"
proof (cases "train_predictions s")
  case None
  then show ?thesis by (simp add: save_splits_def)
next
  case (Some tr)
  show ?thesis
  proof (cases tr)
    case Nil
    then show ?thesis using Some by (simp add: save_splits_def)
  next
    case (Cons x xs)
    from assms[of "x # xs" "''train''"] obtain e
      where "save_fxn TextIO (x # xs) ''train'' = Inl e" by blast
    then show ?thesis using Some Cons by (simp add: save_splits_def)
  qed
qed

text \<open>
  C5. \<^verbatim>\<open>save_inference_predictions\<close> never writes a section: with the train
  list absent it raises TypeError on \<^verbatim>\<open>train_predictions[0]\<close>, before the
  test \<^verbatim>\<open>train_predictions is not None\<close>; with the train list supplied it
  passes the text file returned by the builtin \<^verbatim>\<open>open\<close> to the save function,
  whose call of \<^verbatim>\<open>create_group\<close> raises AttributeError. Every call ends in an
  exception.
\<close>

theorem save_inference_predictions_raises:
  "(\<exists>e. save_inference_predictions savedir P = Inl e)
   \<and> save_inference_predictions savedir
       (StrPredictions \<lparr> train_predictions = None,
                         val_predictions = Some [(''CCO'', [''CCO'', ''CCN''])],
                         test_predictions = None \<rparr>) = Inl TypeError
   \<and> save_inference_predictions savedir
       (StrPredictions \<lparr> train_predictions = Some [(''CCO'', [''CCO'', ''CCN''])],
                         val_predictions = None,
                         test_predictions = None \<rparr>) = Inl AttributeError
   \<and> save_inference_predictions savedir
       (ArrPredictions \<lparr> train_predictions = Some [([1, 0], [[5, 6, 7], [8]])],
                         val_predictions = None,
                         test_predictions = None \<rparr>) = Inl AttributeError"
proof -
  have "\<exists>e. save_inference_predictions savedir P = Inl e"
  proof (cases P)
    case (StrPredictions s)
    have "\<exists>e. save_str_set TextIO preds savename = Inl e" for preds savename
      by (simp add: save_str_set_TextIO)
    from save_splits_fails[of save_str_set, OF this] show ?thesis
      using StrPredictions by simp
  next
    case (ArrPredictions s)
    from save_splits_fails[of save_array_set, OF save_array_set_TextIO] show ?thesis
      using ArrPredictions by simp
  qed
  moreover have "find_max_length [[[5, 6, 7], [8::int]]] = Inr 3"
    by (simp add: find_max_length_def)
  ultimately show ?thesis
    by (simp add: save_splits_def save_str_set_TextIO save_array_set_def np_array_def
          rectangular_def create_group_def)
qed

section \<open>Padding of ragged numeric predictions\<close>












end
